theory Spec2Isabelle
  imports Main
begin

section \<open>The datastore schema\<close>

text \<open>
  The tables of the first migration, one record per table, one field per column (each
  field carries a short table prefix, since the columns \<open>id\<close>, \<open>student_id\<close> and
  \<open>created_at\<close> occur in several tables). A column without \<open>NOT NULL\<close> is an
  \<open>option\<close>, \<open>None\<close> being SQL's \<open>NULL\<close>. A \<open>uuid\<close> is the text the client
  handles it as; a \<open>timestamptz\<close> is a point on a discrete clock. A \<open>char\<close> stands
  for one code unit of a JavaScript or SQL string.
\<close>

type_synonym uuid = string
type_synonym timestamptz = nat

datatype app_role = Student | Admin

text \<open>A row of \<open>auth.users\<close> as the trigger reads it: \<open>new.id\<close>, \<open>new.email\<close> and
  \<open>new.raw_user_meta_data\<close>, the latter as the association of each key with the text
  that \<open>->>\<close> returns for it.\<close>

record auth_user =
  u_id :: uuid
  u_email :: "string option"
  u_raw_user_meta_data :: "(string \<times> string) list"

record profile =
  p_id :: uuid
  p_full_name :: string
  p_email :: string
  p_student_id :: "string option"
  p_department :: "string option"
  p_created_at :: timestamptz

record user_role =
  ur_id :: uuid
  ur_user_id :: uuid
  ur_role :: app_role

record internship =
  i_id :: uuid
  i_company_name :: string
  i_position_title :: string
  i_description :: string
  i_salary :: string
  i_duration :: string
  i_required_skills :: "string list"
  i_location :: string
  i_is_active :: "bool option"
  i_created_at :: timestamptz

record application =
  a_id :: uuid
  a_internship_id :: uuid
  a_student_id :: uuid
  a_status :: "string option"
  a_feedback :: "string option"
  a_applied_at :: timestamptz
  a_updated_at :: timestamptz

record db =
  auth_users :: "auth_user list"
  profiles :: "profile list"
  user_roles :: "user_role list"
  internships :: "internship list"
  applications :: "application list"

text \<open>The constraints of the schema, by the names PostgreSQL gives them, and the errors
  a statement can end with.\<close>

datatype constraint_name =
    users_pkey
  | profiles_pkey
  | profiles_student_id_key
  | user_roles_pkey
  | user_roles_user_id_role_key
  | applications_pkey
  | applications_internship_id_student_id_key

datatype pg_error =
    RlsViolation
  | NotNullViolation
  | CheckViolation
  | UniqueViolation constraint_name
  | ForeignKeyViolation

text \<open>The requester of a statement, as the policies see it: \<open>auth.uid()\<close> (\<open>NULL\<close>
  without a session) and \<open>auth.role()\<close>.\<close>

record requester =
  auth_uid :: "uuid option"
  auth_role :: string

section \<open>The role check and the row-level policies\<close>

text \<open>
  \<open>public.has_role(_user_id, _role)\<close>: \<open>SELECT EXISTS (SELECT 1 FROM public.user_roles
  WHERE user_id = _user_id AND role = _role)\<close>, declared \<open>STABLE SECURITY DEFINER\<close>. It
  is a query: it takes the database and returns a boolean, and it reads the table
  \<open>user_roles\<close> itself, not the rows a policy would leave the requester. A \<open>NULL\<close>
  \<open>_user_id\<close> makes the comparison \<open>NULL\<close> on every row, so no row qualifies.
\<close>

definition has_role :: "db \<Rightarrow> uuid option \<Rightarrow> app_role \<Rightarrow> bool" where
  "has_role d user_id role =
     (case user_id of
        None \<Rightarrow> False
      | Some u \<Rightarrow> list_ex (\<lambda>row. ur_user_id row = u \<and> ur_role row = role) (user_roles d))"

text \<open>Policies on \<open>profiles\<close> and \<open>user_roles\<close>: \<open>USING (auth.uid() = id)\<close> and
  \<open>USING (auth.uid() = user_id)\<close>.\<close>

definition users_can_view_their_own_profile :: "requester \<Rightarrow> profile \<Rightarrow> bool" where
  "users_can_view_their_own_profile req row = (auth_uid req = Some (p_id row))"

definition users_can_update_their_own_profile :: "requester \<Rightarrow> profile \<Rightarrow> bool" where
  "users_can_update_their_own_profile req row = (auth_uid req = Some (p_id row))"

definition users_can_view_their_own_roles :: "requester \<Rightarrow> user_role \<Rightarrow> bool" where
  "users_can_view_their_own_roles req row = (auth_uid req = Some (ur_user_id row))"

text \<open>Policies on \<open>internships\<close>: \<open>FOR SELECT USING (auth.role() = 'authenticated' AND
  is_active = true)\<close> and \<open>FOR ALL USING (public.has_role(auth.uid(), 'admin'))\<close>.\<close>

definition anyone_authenticated_can_view_active_internships ::
    "requester \<Rightarrow> internship \<Rightarrow> bool" where
  "anyone_authenticated_can_view_active_internships req row =
     (auth_role req = ''authenticated'' \<and> i_is_active row = Some True)"

definition admins_can_manage_internships :: "db \<Rightarrow> requester \<Rightarrow> internship \<Rightarrow> bool" where
  "admins_can_manage_internships d req row = has_role d (auth_uid req) Admin"

text \<open>Policies on \<open>applications\<close>.\<close>

definition students_can_view_their_own_applications ::
    "requester \<Rightarrow> application \<Rightarrow> bool" where
  "students_can_view_their_own_applications req row = (auth_uid req = Some (a_student_id row))"

definition students_can_create_their_own_applications ::
    "requester \<Rightarrow> application \<Rightarrow> bool" where
  "students_can_create_their_own_applications req row =
     (auth_uid req = Some (a_student_id row) \<and> a_status row = Some ''pending'')"

definition admins_can_view_all_applications :: "db \<Rightarrow> requester \<Rightarrow> application \<Rightarrow> bool" where
  "admins_can_view_all_applications d req row = has_role d (auth_uid req) Admin"

definition admins_can_update_applications :: "db \<Rightarrow> requester \<Rightarrow> application \<Rightarrow> bool" where
  "admins_can_update_applications d req row = has_role d (auth_uid req) Admin"

text \<open>
  Row-level security is enabled on every table, so a statement sees a row only when one
  of the permissive policies for its command admits the row: the policies for one
  command are joined by \<open>OR\<close>, and a \<open>FOR ALL\<close> policy counts for every command. A
  \<open>SELECT\<close> returns the rows that pass; rows that do not pass are left out, without an
  error.
\<close>

definition internships_select_visible :: "db \<Rightarrow> requester \<Rightarrow> internship \<Rightarrow> bool" where
  "internships_select_visible d req row =
     (anyone_authenticated_can_view_active_internships req row
      \<or> admins_can_manage_internships d req row)"

definition select_internships :: "db \<Rightarrow> requester \<Rightarrow> internship list" where
  "select_internships d req = filter (internships_select_visible d req) (internships d)"

definition select_user_roles :: "db \<Rightarrow> requester \<Rightarrow> user_role list" where
  "select_user_roles d req = filter (users_can_view_their_own_roles req) (user_roles d)"

definition applications_select_visible :: "db \<Rightarrow> requester \<Rightarrow> application \<Rightarrow> bool" where
  "applications_select_visible d req row =
     (students_can_view_their_own_applications req row
      \<or> admins_can_view_all_applications d req row)"

definition select_applications :: "db \<Rightarrow> requester \<Rightarrow> application list" where
  "select_applications d req = filter (applications_select_visible d req) (applications d)"

section \<open>Writes to the datastore\<close>

text \<open>
  A statement either ends with an error, and then nothing of it is kept, or yields the
  next database. \<open>commit\<close> is what the database is after the statement.
\<close>

definition commit :: "db \<Rightarrow> pg_error + db \<Rightarrow> db" where
  "commit d r = (case r of Inl e \<Rightarrow> d | Inr d' \<Rightarrow> d')"

text \<open>\<open>CHECK (status IN ('pending', 'accepted', 'rejected'))\<close>; a check constraint holds
  on \<open>NULL\<close>, and the column \<open>status\<close> has no \<open>NOT NULL\<close>.\<close>

definition status_check :: "string option \<Rightarrow> bool" where
  "status_check st =
     (case st of None \<Rightarrow> True | Some s \<Rightarrow> s = ''pending'' \<or> s = ''accepted'' \<or> s = ''rejected'')"

text \<open>
  \<open>INSERT INTO applications\<close> of one row whose defaults are filled in. PostgreSQL
  evaluates the \<open>WITH CHECK\<close> of the insert policy first, then the check constraint, then
  enters the row into the primary-key index and the index of
  \<open>UNIQUE (internship_id, student_id)\<close>, and checks the two foreign keys at the end of
  the statement.
\<close>

definition insert_application :: "db \<Rightarrow> requester \<Rightarrow> application \<Rightarrow> pg_error + db" where
  "insert_application d req row =
     (if \<not> students_can_create_their_own_applications req row then Inl RlsViolation
      else if \<not> status_check (a_status row) then Inl CheckViolation
      else if list_ex (\<lambda>r. a_id r = a_id row) (applications d)
        then Inl (UniqueViolation applications_pkey)
      else if list_ex (\<lambda>r. a_internship_id r = a_internship_id row
                             \<and> a_student_id r = a_student_id row) (applications d)
        then Inl (UniqueViolation applications_internship_id_student_id_key)
      else if \<not> list_ex (\<lambda>i. i_id i = a_internship_id row) (internships d)
              \<or> \<not> list_ex (\<lambda>p. p_id p = a_student_id row) (profiles d)
        then Inl ForeignKeyViolation
      else Inr (d\<lparr>applications := applications d @ [row]\<rparr>))"

text \<open>The trigger function \<open>update_application_timestamp\<close>, \<open>BEFORE UPDATE ... FOR EACH
  ROW\<close>: \<open>NEW.updated_at = now()\<close>.\<close>

definition update_application_timestamp :: "timestamptz \<Rightarrow> application \<Rightarrow> application" where
  "update_application_timestamp now new = new\<lparr>a_updated_at := now\<rparr>"

text \<open>
  \<open>UPDATE applications SET status = .., feedback = .. WHERE id = ..\<close>, the one update
  the client issues. The \<open>USING\<close> expression of the update policy selects the rows the
  statement may touch, and since the statement reads the column \<open>id\<close>, the select
  policies apply as well; rows that are not admitted are skipped without an error. The
  update policy has no \<open>WITH CHECK\<close>, so the same expressions are applied to the new
  row, after the trigger; then the check constraint.
\<close>

definition update_application ::
    "db \<Rightarrow> requester \<Rightarrow> timestamptz \<Rightarrow> uuid \<Rightarrow> string option \<Rightarrow> string option \<Rightarrow> pg_error + db" where
  "update_application d req now target new_status new_feedback =
     (let admitted = (\<lambda>row. applications_select_visible d req row
                              \<and> admins_can_update_applications d req row);
          hit = (\<lambda>row. a_id row = target \<and> admitted row);
          upd = (\<lambda>row. update_application_timestamp now
                          (row\<lparr>a_status := new_status, a_feedback := new_feedback\<rparr>))
      in if list_ex (\<lambda>row. hit row \<and> \<not> admitted (upd row)) (applications d)
           then Inl RlsViolation
         else if list_ex (\<lambda>row. hit row \<and> \<not> status_check (a_status (upd row))) (applications d)
           then Inl CheckViolation
         else Inr (d\<lparr>applications := map (\<lambda>row. if hit row then upd row else row)
                                           (applications d)\<rparr>))"

text \<open>\<open>new.raw_user_meta_data->>'key'\<close>: the text under the key, \<open>NULL\<close> without it.\<close>

definition meta_get :: "auth_user \<Rightarrow> string \<Rightarrow> string option" where
  "meta_get new k = map_of (u_raw_user_meta_data new) k"

text \<open>
  The trigger function \<open>handle_new_user\<close>: one insert into \<open>profiles\<close>, then one
  insert into \<open>user_roles\<close> in the branch the \<open>role\<close> key selects. It runs with the
  definer's rights, so no policy applies; the constraints of the two tables do. The
  fresh \<open>id\<close> of the role row (\<open>gen_random_uuid()\<close>) and \<open>now()\<close> come from the
  environment. An error in either insert ends the function with that error.
\<close>

definition handle_new_user :: "db \<Rightarrow> timestamptz \<Rightarrow> uuid \<Rightarrow> auth_user \<Rightarrow> pg_error + db" where
  "handle_new_user d now role_row_id new =
     (case u_email new of
        None \<Rightarrow> Inl NotNullViolation
      | Some email \<Rightarrow>
         (let prof = \<lparr>p_id = u_id new,
                      p_full_name = (case meta_get new ''full_name'' of None \<Rightarrow> [] | Some n \<Rightarrow> n),
                      p_email = email,
                      p_student_id = meta_get new ''student_id'',
                      p_department = meta_get new ''department'',
                      p_created_at = now\<rparr>
          in if list_ex (\<lambda>p. p_id p = u_id new) (profiles d)
               then Inl (UniqueViolation profiles_pkey)
             else if (case p_student_id prof of
                        None \<Rightarrow> False
                      | Some s \<Rightarrow> list_ex (\<lambda>p. p_student_id p = Some s) (profiles d))
               then Inl (UniqueViolation profiles_student_id_key)
             else if \<not> list_ex (\<lambda>u. u_id u = u_id new) (auth_users d)
               then Inl ForeignKeyViolation
             else
               (let d1 = d\<lparr>profiles := profiles d @ [prof]\<rparr>;
                    r = \<lparr>ur_id = role_row_id,
                         ur_user_id = u_id new,
                         ur_role = (if meta_get new ''role'' = Some ''admin''
                                    then Admin else Student)\<rparr>
                in if list_ex (\<lambda>x. ur_id x = role_row_id) (user_roles d1)
                     then Inl (UniqueViolation user_roles_pkey)
                   else if list_ex (\<lambda>x. ur_user_id x = u_id new \<and> ur_role x = ur_role r)
                             (user_roles d1)
                     then Inl (UniqueViolation user_roles_user_id_role_key)
                   else if \<not> list_ex (\<lambda>p. p_id p = u_id new) (profiles d1)
                     then Inl ForeignKeyViolation
                   else Inr (d1\<lparr>user_roles := user_roles d1 @ [r]\<rparr>))))"

text \<open>
  The creation of a user. The table \<open>auth.users\<close> is the identity provider's, and so
  is the insert into it; of both the model keeps the primary key on \<open>id\<close>. The
  trigger \<open>on_auth_user_created\<close> is \<open>AFTER INSERT ON auth.users FOR EACH ROW\<close>: it
  runs inside the inserting statement, on the table that already holds the new row, and
  its error is the statement's error.
\<close>

definition on_auth_user_created ::
    "db \<Rightarrow> timestamptz \<Rightarrow> uuid \<Rightarrow> auth_user \<Rightarrow> pg_error + db" where
  "on_auth_user_created d now role_row_id new =
     (if list_ex (\<lambda>u. u_id u = u_id new) (auth_users d) then Inl (UniqueViolation users_pkey)
      else handle_new_user (d\<lparr>auth_users := auth_users d @ [new]\<rparr>) now role_row_id new)"

text \<open>
  \<open>DELETE FROM internships WHERE id = ..\<close>. The only policy for the command is the
  \<open>FOR ALL\<close> policy of the admins, and the select policies apply since the statement
  reads \<open>id\<close>. \<open>applications.internship_id\<close> is \<open>ON DELETE CASCADE\<close>: the
  applications to a deleted posting go with it, whatever the policies on
  \<open>applications\<close>.
\<close>

definition delete_internship :: "db \<Rightarrow> requester \<Rightarrow> uuid \<Rightarrow> pg_error + db" where
  "delete_internship d req target =
     (let hit = (\<lambda>row. i_id row = target \<and> internships_select_visible d req row
                         \<and> admins_can_manage_internships d req row)
      in Inr (d\<lparr>internships := filter (\<lambda>row. \<not> hit row) (internships d),
                applications :=
                  filter (\<lambda>a. \<not> list_ex (\<lambda>row. hit row \<and> i_id row = a_internship_id a)
                                     (internships d))
                    (applications d)\<rparr>))"

text \<open>
  The deletion of a user by the identity provider. \<open>profiles.id\<close>,
  \<open>user_roles.user_id\<close> and \<open>applications.student_id\<close> are \<open>ON DELETE CASCADE\<close>,
  so the user's profile, role rows and applications go with the user.
\<close>

definition delete_user :: "db \<Rightarrow> uuid \<Rightarrow> db" where
  "delete_user d uid =
     d\<lparr>auth_users := filter (\<lambda>u. u_id u \<noteq> uid) (auth_users d),
       profiles := filter (\<lambda>p. p_id p \<noteq> uid) (profiles d),
       user_roles := filter (\<lambda>r. ur_user_id r \<noteq> uid) (user_roles d),
       applications := filter (\<lambda>a. a_student_id a \<noteq> uid) (applications d)\<rparr>"

section \<open>The client\<close>

text \<open>
  The handlers of the three pages, as functions of the database they act on and of what
  the environment answers: the text of a datastore error (\<open>error.message\<close>), the result
  of a call to the identity provider or to the email function, fresh identifiers and the
  clock. A handler returns what it leaves behind: the database, the calls it made, the
  toast it showed. Transport failures of the datastore calls are not modelled.
\<close>

datatype toast = ToastSuccess string | ToastError string

text \<open>JavaScript's \<open>x || dflt\<close> on a string that may be \<open>undefined\<close>: the empty string
  and \<open>undefined\<close> are both falsy.\<close>

definition or_else :: "string option \<Rightarrow> string \<Rightarrow> string" where
  "or_else x dflt = (case x of None \<Rightarrow> dflt | Some s \<Rightarrow> if s = [] then dflt else s)"

definition or_null :: "string option \<Rightarrow> string option" where
  "or_null x = (case x of None \<Rightarrow> None | Some s \<Rightarrow> if s = [] then None else Some s)"

subsection \<open>The student dashboard: \<open>handleApply\<close>\<close>

record apply_outcome =
  ao_db :: db
  ao_toast :: "toast option"

text \<open>
  \<open>handleApply\<close> returns at once without a user. Otherwise it inserts \<open>{internship_id,
  student_id: user.id, status: "pending"}\<close> under the user's session; the defaults of the
  table fill in \<open>id\<close>, \<open>feedback\<close>, \<open>applied_at\<close> and \<open>updated_at\<close>. An error is
  thrown and caught, and shown as \<open>error.message || "Error submitting application"\<close>.
\<close>

definition handleApply ::
    "(pg_error \<Rightarrow> string) \<Rightarrow> db \<Rightarrow> timestamptz \<Rightarrow> uuid \<Rightarrow> uuid option \<Rightarrow> uuid \<Rightarrow> apply_outcome" where
  "handleApply message d now fresh_id user internshipId =
     (case user of
        None \<Rightarrow> \<lparr>ao_db = d, ao_toast = None\<rparr>
      | Some uid \<Rightarrow>
         (case insert_application d \<lparr>auth_uid = Some uid, auth_role = ''authenticated''\<rparr>
                 \<lparr>a_id = fresh_id, a_internship_id = internshipId, a_student_id = uid,
                  a_status = Some ''pending'', a_feedback = None,
                  a_applied_at = now, a_updated_at = now\<rparr> of
            Inl error \<Rightarrow>
              \<lparr>ao_db = d,
               ao_toast = Some (ToastError (or_else (Some (message error))
                                                    ''Error submitting application''))\<rparr>
          | Inr d' \<Rightarrow>
              \<lparr>ao_db = d',
               ao_toast = Some (ToastSuccess ''Application submitted successfully!'')\<rparr>))"

subsection \<open>The admin dashboard: \<open>handleStatusUpdate\<close>\<close>

text \<open>The parameter type \<open>'accepted' | 'rejected'\<close> of \<open>handleStatusUpdate\<close>.\<close>

datatype new_status = Accepted | Rejected

fun status_text :: "new_status \<Rightarrow> string" where
  "status_text Accepted = ''accepted''"
| "status_text Rejected = ''rejected''"

text \<open>A JSON value as a handler finds it in a parsed body; \<open>JUndefined\<close> is a key
  that is not there.\<close>

datatype json_value = JUndefined | JNull | JBool bool | JNumber int | JString string

text \<open>The body of a call to the email function: the interface \<open>EmailRequest\<close>. The
  function does not check the body against the interface, so \<open>status\<close> is any JSON
  value; \<open>to\<close> and \<open>feedback\<close> are the strings the interface declares.\<close>

record EmailRequest =
  er_to :: string
  er_status :: json_value
  er_feedback :: string

record status_update_outcome =
  so_db :: db
  so_invocations :: "EmailRequest list"
  so_toast :: toast
  so_feedback :: "uuid \<Rightarrow> string option"

text \<open>
  \<open>handleStatusUpdate(applicationId, newStatus, studentEmail)\<close>. \<open>feedback\<close> is the
  component's state, a dictionary from application ids to the text typed for them. The
  update is sent first; an error of the update is thrown, so nothing else happens but the
  error toast. Otherwise the email function is invoked once, its error decides between the
  two toasts, and the text typed for the application is reset to the empty string.
  \<open>invoke\<close> answers \<open>Some\<close> error or \<open>None\<close>.
\<close>

definition handleStatusUpdate ::
    "(pg_error \<Rightarrow> string) \<Rightarrow> (EmailRequest \<Rightarrow> string option) \<Rightarrow> db \<Rightarrow> requester \<Rightarrow> timestamptz
       \<Rightarrow> (uuid \<Rightarrow> string option) \<Rightarrow> uuid \<Rightarrow> new_status \<Rightarrow> string \<Rightarrow> status_update_outcome" where
  "handleStatusUpdate message invoke d req now feedback applicationId newStatus studentEmail =
     (case update_application d req now applicationId (Some (status_text newStatus))
             (or_null (feedback applicationId)) of
        Inl updateError \<Rightarrow>
          \<lparr>so_db = d, so_invocations = [],
           so_toast = ToastError (or_else (Some (message updateError))
                                          ''Error updating application''),
           so_feedback = feedback\<rparr>
      | Inr d' \<Rightarrow>
          (let body = \<lparr>er_to = studentEmail,
                       er_status = JString (status_text newStatus),
                       er_feedback = or_else (feedback applicationId) []\<rparr>
           in \<lparr>so_db = d', so_invocations = [body],
               so_toast = (case invoke body of
                             Some emailError \<Rightarrow>
                               ToastError ''Status updated but email notification failed''
                           | None \<Rightarrow>
                               ToastSuccess (''Application '' @ status_text newStatus
                                             @ '' and email sent!'')),
               so_feedback = feedback(applicationId \<mapsto> [])\<rparr>))"

text \<open>The dashboard renders the feedback box and the Accept and Reject buttons only
  under \<open>application.status === 'pending'\<close>.\<close>

definition status_actions_offered :: "application \<Rightarrow> bool" where
  "status_actions_offered app = (a_status app = Some ''pending'')"

subsection \<open>The sign-in page: the two schemas, \<open>handleSignUp\<close> and \<open>handleSignIn\<close>\<close>

text \<open>
  \<open>String.prototype.trim\<close> removes white space and line terminators from both ends; of
  the code units below 256 these are tab, line feed, vertical tab, form feed, carriage
  return, space and the no-break space.
\<close>

definition is_space :: "char \<Rightarrow> bool" where
  "is_space c = (c \<in> set [CHR 0x09, CHR 0x0A, CHR 0x0B, CHR 0x0C, CHR 0x0D, CHR 0x20, CHR 0xA0])"

definition trim :: "string \<Rightarrow> string" where
  "trim s = rev (dropWhile is_space (rev (dropWhile is_space s)))"

record signup_data =
  sd_email :: string
  sd_password :: string
  sd_fullName :: string
  sd_studentId :: "string option"
  sd_department :: "string option"

record signin_data =
  si_email :: string
  si_password :: string

text \<open>
  \<open>signupSchema.parse(data)\<close> and \<open>signinSchema.parse(data)\<close>, as the list of the
  messages of the issues the thrown \<open>ZodError\<close> carries, empty when \<open>parse\<close> returns.
  An object schema visits its keys in the order they are written and a string schema its
  checks in the order they are chained, so \<open>trim\<close> comes before \<open>email\<close> and
  \<open>min\<close>. The test behind \<open>email()\<close> is the library's and is the parameter
  \<open>is_email\<close>; \<open>min\<close> counts code units. The optional trimmed strings
  \<open>studentId\<close> and \<open>department\<close> raise no issue on a string or on \<open>undefined\<close>.
\<close>

definition signupSchema :: "(string \<Rightarrow> bool) \<Rightarrow> signup_data \<Rightarrow> string list" where
  "signupSchema is_email data =
     (if is_email (trim (sd_email data)) then [] else [''Invalid email address''])
     @ (if 6 \<le> length (sd_password data) then []
        else [''Password must be at least 6 characters''])
     @ (if 1 \<le> length (trim (sd_fullName data)) then [] else [''Full name is required''])"

definition signinSchema :: "(string \<Rightarrow> bool) \<Rightarrow> signin_data \<Rightarrow> string list" where
  "signinSchema is_email data =
     (if is_email (trim (si_email data)) then [] else [''Invalid email address''])
     @ (if 1 \<le> length (si_password data) then [] else [''Password is required''])"

text \<open>The state \<open>userType\<close> of the page and the fields of the sign-up form; the form
  has the fields \<open>studentId\<close> and \<open>department\<close> only for a student, and the handler
  reads them only then.\<close>

datatype userType = UserStudent | UserAdmin

fun userType_text :: "userType \<Rightarrow> string" where
  "userType_text UserStudent = ''student''"
| "userType_text UserAdmin = ''admin''"

record signup_form =
  sf_email :: string
  sf_password :: string
  sf_fullName :: string
  sf_studentId :: string
  sf_department :: string

text \<open>The argument of \<open>supabase.auth.signUp\<close>; \<open>su_data\<close> is the metadata object as
  it is serialised, a key whose value is \<open>undefined\<close> being left out.\<close>

record signUp_credentials =
  su_email :: string
  su_password :: string
  su_emailRedirectTo :: string
  su_data :: "(string \<times> string) list"

datatype network_call =
    SignUpCall signUp_credentials
  | SignInWithPasswordCall string string
  | GetUserCall
  | SelectRoleCall uuid

text \<open>An error object of the identity provider, with its \<open>message\<close> when it has one.\<close>

datatype auth_error = AuthError "string option"

fun error_message :: "auth_error \<Rightarrow> string option" where
  "error_message (AuthError m) = m"

record auth_outcome =
  au_calls :: "network_call list"
  au_toast :: "toast option"
  au_navigate :: "string option"

text \<open>
  \<open>handleSignUp\<close>: build \<open>data\<close> from the form, parse it, and only then call the
  identity provider. A \<open>ZodError\<close> is caught and its first issue is shown; an error of
  the provider is shown as \<open>error.message || "Error creating account"\<close>. \<open>origin\<close> is
  \<open>window.location.origin\<close>.
\<close>

definition handleSignUp ::
    "(string \<Rightarrow> bool) \<Rightarrow> (signUp_credentials \<Rightarrow> auth_error option) \<Rightarrow> string \<Rightarrow> userType
       \<Rightarrow> signup_form \<Rightarrow> auth_outcome" where
  "handleSignUp is_email signUp origin user_type form =
     (let data = \<lparr>sd_email = sf_email form,
                  sd_password = sf_password form,
                  sd_fullName = sf_fullName form,
                  sd_studentId = (if user_type = UserStudent then Some (sf_studentId form)
                                  else None),
                  sd_department = (if user_type = UserStudent then Some (sf_department form)
                                   else None)\<rparr>
      in case signupSchema is_email data of
           issue # _ \<Rightarrow> \<lparr>au_calls = [], au_toast = Some (ToastError issue), au_navigate = None\<rparr>
         | [] \<Rightarrow>
            (let credentials =
                   \<lparr>su_email = sd_email data,
                    su_password = sd_password data,
                    su_emailRedirectTo = origin @ ''/'',
                    su_data = [(''full_name'', sd_fullName data)]
                              @ (case sd_studentId data of
                                   None \<Rightarrow> [] | Some s \<Rightarrow> [(''student_id'', s)])
                              @ (case sd_department data of
                                   None \<Rightarrow> [] | Some s \<Rightarrow> [(''department'', s)])
                              @ [(''role'', userType_text user_type)]\<rparr>
             in case signUp credentials of
                  Some error \<Rightarrow>
                    \<lparr>au_calls = [SignUpCall credentials],
                     au_toast = Some (ToastError (or_else (error_message error)
                                                          ''Error creating account'')),
                     au_navigate = None\<rparr>
                | None \<Rightarrow>
                    \<lparr>au_calls = [SignUpCall credentials],
                     au_toast = Some (ToastSuccess ''Account created successfully!''),
                     au_navigate = Some (if user_type = UserAdmin then ''/admin''
                                         else ''/student'')\<rparr>))"

text \<open>\<open>.single()\<close>: the row when the query returns exactly one, no data otherwise.\<close>

definition single :: "'a list \<Rightarrow> 'a option" where
  "single rows = (case rows of [row] \<Rightarrow> Some row | _ \<Rightarrow> None)"

text \<open>
  \<open>handleSignIn\<close>: parse, sign in, then fetch the user and, under the new session, the
  user's role row, and navigate by it. \<open>getUser\<close> is the user the provider returns.
\<close>

definition handleSignIn ::
    "(string \<Rightarrow> bool) \<Rightarrow> (string \<Rightarrow> string \<Rightarrow> auth_error option) \<Rightarrow> uuid option \<Rightarrow> db
       \<Rightarrow> signin_data \<Rightarrow> auth_outcome" where
  "handleSignIn is_email signInWithPassword getUser d data =
     (case signinSchema is_email data of
        issue # _ \<Rightarrow> \<lparr>au_calls = [], au_toast = Some (ToastError issue), au_navigate = None\<rparr>
      | [] \<Rightarrow>
         (let call = SignInWithPasswordCall (si_email data) (si_password data)
          in case signInWithPassword (si_email data) (si_password data) of
               Some error \<Rightarrow>
                 \<lparr>au_calls = [call],
                  au_toast = Some (ToastError (or_else (error_message error)
                                                       ''Error signing in'')),
                  au_navigate = None\<rparr>
             | None \<Rightarrow>
                (case getUser of
                   None \<Rightarrow> \<lparr>au_calls = [call, GetUserCall], au_toast = None, au_navigate = None\<rparr>
                 | Some uid \<Rightarrow>
                    (let roleData =
                           single (filter (\<lambda>row. ur_user_id row = uid)
                                     (select_user_roles d
                                        \<lparr>auth_uid = Some uid, auth_role = ''authenticated''\<rparr>))
                     in \<lparr>au_calls = [call, GetUserCall, SelectRoleCall uid],
                         au_toast = Some (ToastSuccess ''Signed in successfully!''),
                         au_navigate =
                           Some (if (case roleData of
                                       None \<Rightarrow> False | Some row \<Rightarrow> ur_role row = Admin)
                                 then ''/admin'' else ''/student'')\<rparr>))))"

section \<open>The email function\<close>

text \<open>
  The edge function \<open>send-application-email\<close>. The subject and the HTML body are
  chosen by \<open>status === 'accepted'\<close>, each time with the other text as the
  alternative; the body holds the feedback box only when \<open>feedback\<close> is truthy, that
  is, not empty. The texts are the template literals of the source, line feeds
  included. The first character of the acceptance subject, U+1F389, is written as its
  four bytes in UTF-8.
\<close>

definition accepted_subject :: string where
  "accepted_subject =
     [CHR 0xF0, CHR 0x9F, CHR 0x8E, CHR 0x89]
     @ '' Your Internship Application Has Been Accepted!''"

definition rejected_subject :: string where
  "rejected_subject = ''Update on Your Internship Application''"

definition accepted_message :: "string \<Rightarrow> string" where
  \<open>accepted_message feedback =
     ''<div style="font-family: Arial, sans-serif; max-width: 600px; margin: 0 auto;">''
     @ [CHR 0x0A]
     @ ''          <h1 style="color: #059669;">Congratulations!</h1>''
     @ [CHR 0x0A]
     @ ''          <p>We are pleased to inform you that your internship application has been <strong>accepted</strong>.</p>''
     @ [CHR 0x0A]
     @ ''          ''
     @ (if feedback \<noteq> [] then
     ''<div style="background-color: #f0f9ff; padding: 15px; border-left: 4px solid #059669; margin: 20px 0;">''
     @ [CHR 0x0A]
     @ ''            <p style="margin: 0;"><strong>Message from Admin:</strong></p>''
     @ [CHR 0x0A]
     @ ''            <p style="margin: 10px 0 0 0;">''
     @ feedback @
     ''</p>''
     @ [CHR 0x0A]
     @ ''          </div>''
        else [])
     @ [CHR 0x0A]
     @ ''          <p>Please check your student portal for next steps.</p>''
     @ [CHR 0x0A]
     @ ''          <p style="margin-top: 30px;">Best regards,<br><strong>KLU Internship Management Team</strong></p>''
     @ [CHR 0x0A]
     @ ''        </div>''\<close>

definition rejected_message :: "string \<Rightarrow> string" where
  \<open>rejected_message feedback =
     ''<div style="font-family: Arial, sans-serif; max-width: 600px; margin: 0 auto;">''
     @ [CHR 0x0A]
     @ ''          <h1 style="color: #dc2626;">Application Update</h1>''
     @ [CHR 0x0A]
     @ ''          <p>Thank you for your interest in our internship program.</p>''
     @ [CHR 0x0A]
     @ ''          <p>After careful consideration, we regret to inform you that your application was not selected at this time.</p>''
     @ [CHR 0x0A]
     @ ''          ''
     @ (if feedback \<noteq> [] then
     ''<div style="background-color: #fef2f2; padding: 15px; border-left: 4px solid: #dc2626; margin: 20px 0;">''
     @ [CHR 0x0A]
     @ ''            <p style="margin: 0;"><strong>Feedback:</strong></p>''
     @ [CHR 0x0A]
     @ ''            <p style="margin: 10px 0 0 0;">''
     @ feedback @
     ''</p>''
     @ [CHR 0x0A]
     @ ''          </div>''
        else [])
     @ [CHR 0x0A]
     @ ''          <p>We encourage you to continue developing your skills and apply for future opportunities.</p>''
     @ [CHR 0x0A]
     @ ''          <p style="margin-top: 30px;">Best regards,<br><strong>KLU Internship Management Team</strong></p>''
     @ [CHR 0x0A]
     @ ''        </div>''\<close>

text \<open>The message handed to the mail service, and what the service answers:
  \<open>emailResponse.ok\<close>, the JSON text of the answer, and what reading
  \<open>data.message\<close> gives: the member when there is one, or, when the answer is
  \<open>null\<close>, the \<open>TypeError\<close> the read throws (\<open>Inl\<close> its message).\<close>

record email_message =
  em_from :: string
  em_to :: "string list"
  em_subject :: string
  em_html :: string

record resend_response =
  rr_ok :: bool
  rr_data :: string
  rr_message :: "string + string option"

text \<open>A request: its method and the outcome of \<open>await req.json()\<close> with the
  destructuring, \<open>Inl\<close> the message of the exception when that throws.\<close>

record http_request =
  hr_method :: string
  hr_json :: "string + EmailRequest"

datatype response_body = NoBody | JsonData string | JsonError string

record http_response =
  rs_status :: nat
  rs_body :: response_body

record handler_outcome =
  ho_sent :: "email_message list"
  ho_response :: http_response

text \<open>
  \<open>handler\<close>. A preflight request is answered at once. Everything else runs inside
  one \<open>try\<close>: any exception, also the one thrown for an answer of the mail service
  that is not \<open>ok\<close>, becomes a response with status 500 and the exception's message.
  \<open>send\<close> is the \<open>fetch\<close> to the mail service together with reading its answer,
  \<open>Inl\<close> the message of the exception when either throws. Headers and the two log
  lines are left out.
\<close>

definition handler ::
    "(email_message \<Rightarrow> string + resend_response) \<Rightarrow> http_request \<Rightarrow> handler_outcome" where
  "handler send req =
     (if hr_method req = ''OPTIONS''
        then \<lparr>ho_sent = [], ho_response = \<lparr>rs_status = 200, rs_body = NoBody\<rparr>\<rparr>
      else
        (case hr_json req of
           Inl thrown \<Rightarrow>
             \<lparr>ho_sent = [], ho_response = \<lparr>rs_status = 500, rs_body = JsonError thrown\<rparr>\<rparr>
         | Inr body \<Rightarrow>
            (let subject = (if er_status body = JString ''accepted''
                            then accepted_subject else rejected_subject);
                 message = (if er_status body = JString ''accepted''
                            then accepted_message (er_feedback body)
                            else rejected_message (er_feedback body));
                 email = \<lparr>em_from = ''KLU Internship Portal <onboarding@resend.dev>'',
                          em_to = [er_to body],
                          em_subject = subject,
                          em_html = message\<rparr>
             in case send email of
                  Inl thrown \<Rightarrow>
                    \<lparr>ho_sent = [email],
                     ho_response = \<lparr>rs_status = 500, rs_body = JsonError thrown\<rparr>\<rparr>
                | Inr emailResponse \<Rightarrow>
                    if \<not> rr_ok emailResponse
                      then \<lparr>ho_sent = [email],
                            ho_response =
                              \<lparr>rs_status = 500,
                               rs_body = JsonError
                                 (case rr_message emailResponse of
                                    Inl thrown \<Rightarrow> thrown
                                  | Inr message \<Rightarrow> or_else message ''Failed to send email'')\<rparr>\<rparr>
                    else \<lparr>ho_sent = [email],
                          ho_response = \<lparr>rs_status = 200,
                                         rs_body = JsonData (rr_data emailResponse)\<rparr>\<rparr>)))"

section \<open>Runs of the datastore\<close>

text \<open>
  The statements that change the tables \<open>profiles\<close>, \<open>user_roles\<close> and
  \<open>applications\<close>: the creation of a user with its trigger, an insert into
  \<open>applications\<close>, the update of an application and the deletion of a posting, each
  by any requester and with any arguments, and the deletion of a user. A run applies a
  list of them in turn, a failed statement leaving the database as it was.
\<close>

datatype action =
    CreateUser timestamptz uuid auth_user
  | InsertApplication requester application
  | UpdateApplication requester timestamptz uuid "string option" "string option"
  | DeleteInternship requester uuid
  | DeleteUser uuid

fun step :: "db \<Rightarrow> action \<Rightarrow> db" where
  "step d (CreateUser now role_row_id new) = commit d (on_auth_user_created d now role_row_id new)"
| "step d (InsertApplication req row) = commit d (insert_application d req row)"
| "step d (UpdateApplication req now target st fb) =
     commit d (update_application d req now target st fb)"
| "step d (DeleteInternship req target) = commit d (delete_internship d req target)"
| "step d (DeleteUser uid) = delete_user d uid"

definition run :: "db \<Rightarrow> action list \<Rightarrow> db" where
  "run d acts = foldl step d acts"

text \<open>The rows of \<open>applications\<close> for one posting and one student.\<close>

definition applications_of :: "db \<Rightarrow> uuid \<Rightarrow> uuid \<Rightarrow> application list" where
  "applications_of d internship_id student_id =
     filter (\<lambda>row. a_internship_id row = internship_id \<and> a_student_id row = student_id)
       (applications d)"

definition application_key :: "application \<Rightarrow> uuid \<times> uuid" where
  "application_key row = (a_internship_id row, a_student_id row)"

definition one_application_per_pair :: "db \<Rightarrow> bool" where
  "one_application_per_pair d = distinct (map application_key (applications d))"

section \<open>A small database\<close>

text \<open>
  A database to evaluate the operations on: a student and an admin with their profiles
  and role rows, a principal \<open>carol\<close> with a profile and no role row, the first sample
  posting of the migration and a posting that is not active, and the student's
  application to the first posting, already accepted.
\<close>

definition student_session :: requester where
  "student_session = \<lparr>auth_uid = Some ''alice'', auth_role = ''authenticated''\<rparr>"

definition admin_session :: requester where
  "admin_session = \<lparr>auth_uid = Some ''bob'', auth_role = ''authenticated''\<rparr>"

definition unassigned_session :: requester where
  "unassigned_session = \<lparr>auth_uid = Some ''carol'', auth_role = ''authenticated''\<rparr>"

definition anon_session :: requester where
  "anon_session = \<lparr>auth_uid = None, auth_role = ''anon''\<rparr>"

definition active_posting :: internship where
  "active_posting =
     \<lparr>i_id = ''i1'', i_company_name = ''TechCorp Solutions'',
      i_position_title = ''Frontend Developer Intern'',
      i_description = ''Work on cutting-edge web applications using React and TypeScript.'',
      i_salary = ''$800-1200/month'', i_duration = ''3-6 months'',
      i_required_skills = [''JavaScript'', ''React'', ''TypeScript'', ''HTML/CSS''],
      i_location = ''Remote'', i_is_active = Some True, i_created_at = 1\<rparr>"

definition inactive_posting :: internship where
  "inactive_posting = active_posting\<lparr>i_id := ''i2'', i_is_active := Some False\<rparr>"

definition accepted_application :: application where
  "accepted_application =
     \<lparr>a_id = ''a1'', a_internship_id = ''i1'', a_student_id = ''alice'',
      a_status = Some ''accepted'', a_feedback = Some ''Great fit'',
      a_applied_at = 2, a_updated_at = 3\<rparr>"

definition sample_db :: db where
  "sample_db =
     \<lparr>auth_users =
        [\<lparr>u_id = ''alice'', u_email = Some ''alice@klu.edu'',
          u_raw_user_meta_data = [(''full_name'', ''Alice''), (''student_id'', ''2400030001''),
                                  (''role'', ''student'')]\<rparr>,
         \<lparr>u_id = ''bob'', u_email = Some ''bob@klu.edu'',
          u_raw_user_meta_data = [(''full_name'', ''Bob''), (''role'', ''admin'')]\<rparr>,
         \<lparr>u_id = ''carol'', u_email = Some ''carol@klu.edu'',
          u_raw_user_meta_data = [(''full_name'', ''Carol'')]\<rparr>],
      profiles =
        [\<lparr>p_id = ''alice'', p_full_name = ''Alice'', p_email = ''alice@klu.edu'',
          p_student_id = Some ''2400030001'', p_department = None, p_created_at = 0\<rparr>,
         \<lparr>p_id = ''bob'', p_full_name = ''Bob'', p_email = ''bob@klu.edu'',
          p_student_id = None, p_department = None, p_created_at = 0\<rparr>,
         \<lparr>p_id = ''carol'', p_full_name = ''Carol'', p_email = ''carol@klu.edu'',
          p_student_id = None, p_department = None, p_created_at = 0\<rparr>],
      user_roles =
        [\<lparr>ur_id = ''r1'', ur_user_id = ''alice'', ur_role = Student\<rparr>,
         \<lparr>ur_id = ''r2'', ur_user_id = ''bob'', ur_role = Admin\<rparr>],
      internships = [active_posting, inactive_posting],
      applications = [accepted_application]\<rparr>"

text \<open>The database before any application, and a new user as the sign-up page of an
  admin creates it.\<close>

definition fresh_db :: db where
  "fresh_db = sample_db\<lparr>applications := []\<rparr>"

definition new_admin :: auth_user where
  "new_admin = \<lparr>u_id = ''dave'', u_email = Some ''dave@klu.edu'',
                u_raw_user_meta_data = [(''full_name'', ''Dave''), (''role'', ''admin'')]\<rparr>"

text \<open>Texts for the environment's answers in the evaluations below.\<close>

fun pg_message :: "pg_error \<Rightarrow> string" where
  "pg_message RlsViolation = ''new row violates row-level security policy''"
| "pg_message NotNullViolation = ''null value violates not-null constraint''"
| "pg_message CheckViolation = ''new row violates check constraint''"
| "pg_message (UniqueViolation c) = ''duplicate key value violates unique constraint''"
| "pg_message ForeignKeyViolation = ''insert or update violates foreign key constraint''"

text \<open>A stand-in for the library's email test, and an identity provider that accepts
  every call.\<close>

definition has_at_sign :: "string \<Rightarrow> bool" where
  "has_at_sign s = (CHR ''@'' \<in> set s)"

text \<open>A second stand-in for the email test, which like the library's accepts no text
  with white space in it.\<close>

definition plain_address :: "string \<Rightarrow> bool" where
  "plain_address s = (CHR ''@'' \<in> set s \<and> \<not> list_ex is_space s)"

definition accepting_signUp :: "signUp_credentials \<Rightarrow> auth_error option" where
  "accepting_signUp credentials = None"

definition accepting_signIn :: "string \<Rightarrow> string \<Rightarrow> auth_error option" where
  "accepting_signIn email password = None"

text \<open>A mail service that accepts every message, and a request to the email function
  whose status is none of the two the interface declares.\<close>

definition accepting_send :: "email_message \<Rightarrow> string + resend_response" where
  "accepting_send email = Inr \<lparr>rr_ok = True, rr_data = ''{}'', rr_message = Inr None\<rparr>"

definition pending_request :: http_request where
  "pending_request =
     \<lparr>hr_method = ''POST'',
      hr_json = Inr \<lparr>er_to = ''alice@klu.edu'', er_status = JString ''pending'',
                       er_feedback = []\<rparr>\<rparr>"

text \<open>The foreign keys of \<open>user_roles.user_id\<close> and \<open>profiles.id\<close>: every role row
  belongs to a profile and every profile to a user.\<close>

definition references_hold :: "db \<Rightarrow> bool" where
  "references_hold d =
     (list_all (\<lambda>row. list_ex (\<lambda>p. p_id p = ur_user_id row) (profiles d)) (user_roles d)
      \<and> list_all (\<lambda>p. list_ex (\<lambda>u. u_id u = p_id p) (auth_users d)) (profiles d))"

text \<open>The student's application to the first posting as \<open>handleApply\<close> inserts it.\<close>

definition first_application :: application where
  "first_application =
     \<lparr>a_id = ''a1'', a_internship_id = ''i1'', a_student_id = ''alice'',
      a_status = Some ''pending'', a_feedback = None, a_applied_at = 2, a_updated_at = 2\<rparr>"

text \<open>The database with the student's application still pending, and an email function
  that fails.\<close>

definition pending_db :: db where
  "pending_db = fresh_db\<lparr>applications := [first_application]\<rparr>"

definition failing_invoke :: "EmailRequest \<Rightarrow> string option" where
  "failing_invoke body = Some ''Edge Function returned a non-2xx status code''"

section \<open>The role check\<close>

text \<open>
  Claim C7. \<open>has_role\<close> is a query of the database and nothing else: its value is a
  boolean, and no database is returned. It answers from the whole table \<open>user_roles\<close>,
  whichever rows of that table the requester's own policy would show, so it finds the
  role row of any user. Without a user (\<open>auth.uid()\<close> is \<open>NULL\<close>) and for a user with
  no role row it is false; it has no error result.
\<close>

theorem has_role_pure_definer_total:
  "has_role d None role = False
   \<and> (has_role d (Some u) role
        \<longleftrightarrow> (\<exists>row \<in> set (user_roles d). ur_user_id row = u \<and> ur_role row = role))
   \<and> ((\<forall>row \<in> set (user_roles d). ur_user_id row \<noteq> u) \<longrightarrow> has_role d (Some u) role = False)"
  by (auto simp: has_role_def list_ex_iff)

text \<open>On the small database: a requester without a session sees no row of
  \<open>user_roles\<close> and the student only her own, and the role check still finds the
  admin's row; it is false for \<open>carol\<close>, who has no role row.\<close>

theorem has_role_pure_definer_total_witness:
  "has_role sample_db None Admin = False
   \<and> select_user_roles sample_db anon_session = []
   \<and> select_user_roles sample_db student_session
       = [\<lparr>ur_id = ''r1'', ur_user_id = ''alice'', ur_role = Student\<rparr>]
   \<and> has_role sample_db (Some ''bob'') Admin
   \<and> map ur_user_id (user_roles sample_db) = [''alice'', ''bob'']
   \<and> has_role sample_db (Some ''carol'') Admin = False
   \<and> has_role sample_db (Some ''carol'') Student = False"
  using has_role_pure_definer_total [of sample_db Admin "''bob''"]
    has_role_pure_definer_total [of sample_db Admin "''carol''"]
    has_role_pure_definer_total [of sample_db Student "''carol''"]
  by (simp add: sample_db_def select_user_roles_def users_can_view_their_own_roles_def
      anon_session_def student_session_def)

section \<open>Reading postings\<close>

text \<open>
  Claim C5. A posting that is not active is read by a requester exactly when the
  requester holds the admin role: a requester without it does not get the posting, an
  admin does. An active posting is read by every authenticated requester. Reading is
  being among the rows the \<open>SELECT\<close> returns.
\<close>

theorem internship_read_policy:
  assumes "posting \<in> set (internships d)"
  shows "(i_is_active posting = Some False \<and> \<not> has_role d (auth_uid req) Admin
            \<longrightarrow> posting \<notin> set (select_internships d req))
       \<and> (i_is_active posting = Some False \<and> has_role d (auth_uid req) Admin
            \<longrightarrow> posting \<in> set (select_internships d req))
       \<and> (i_is_active posting = Some True \<and> auth_role req = ''authenticated''
            \<longrightarrow> posting \<in> set (select_internships d req))"
  using assms
  by (simp add: select_internships_def internships_select_visible_def
      anyone_authenticated_can_view_active_internships_def admins_can_manage_internships_def)

theorem internship_read_policy_witness:
  "inactive_posting \<in> set (internships sample_db)
   \<and> i_is_active inactive_posting = Some False
   \<and> \<not> has_role sample_db (auth_uid student_session) Admin
   \<and> inactive_posting \<notin> set (select_internships sample_db student_session)
   \<and> has_role sample_db (auth_uid admin_session) Admin
   \<and> inactive_posting \<in> set (select_internships sample_db admin_session)
   \<and> active_posting \<in> set (internships sample_db)
   \<and> i_is_active active_posting = Some True
   \<and> auth_role student_session = ''authenticated''
   \<and> active_posting \<in> set (select_internships sample_db student_session)"
proof -
  have in1: "inactive_posting \<in> set (internships sample_db)"
    and in2: "active_posting \<in> set (internships sample_db)"
    by (simp_all add: sample_db_def)
  have facts: "i_is_active inactive_posting = Some False"
    "i_is_active active_posting = Some True"
    "\<not> has_role sample_db (auth_uid student_session) Admin"
    "has_role sample_db (auth_uid admin_session) Admin"
    "auth_role student_session = ''authenticated''"
    by (simp_all add: inactive_posting_def active_posting_def has_role_def sample_db_def
        student_session_def admin_session_def)
  show ?thesis
    using internship_read_policy [OF in1, of student_session]
      internship_read_policy [OF in1, of admin_session]
      internship_read_policy [OF in2, of student_session] in1 in2 facts
    by simp
qed

text \<open>
  Claim C2, as stated: an authenticated principal with no role row is denied the list of
  postings, the read yielding nothing. On the small database \<open>carol\<close> is authenticated
  and has no role row, and her read returns the active posting: the select policy asks
  for an authenticated requester and an active row, not for a role.
\<close>

theorem unassigned_principal_reads_active_postings_counterexample:
  "map ur_user_id (user_roles sample_db) = [''alice'', ''bob'']
   \<and> auth_uid unassigned_session = Some ''carol''
   \<and> auth_role unassigned_session = ''authenticated''
   \<and> select_internships sample_db unassigned_session = [active_posting]"
  by (simp add: sample_db_def unassigned_session_def select_internships_def
      internships_select_visible_def anyone_authenticated_can_view_active_internships_def
      admins_can_manage_internships_def has_role_def active_posting_def inactive_posting_def)

text \<open>
  Claim C2, amended. For every authenticated principal with no row in \<open>user_roles\<close>, a
  read of the postings returns exactly the postings that are active; the others are
  left out, and the read is a result, not an error.
\<close>

theorem unassigned_principal_reads_active_postings:
  assumes "auth_role req = ''authenticated''"
    and "\<not> list_ex (\<lambda>row. Some (ur_user_id row) = auth_uid req) (user_roles d)"
  shows "select_internships d req = filter (\<lambda>row. i_is_active row = Some True) (internships d)"
proof -
  have "\<not> has_role d (auth_uid req) Admin"
    using assms(2) by (auto simp: has_role_def list_ex_iff split: option.splits)
  then have "internships_select_visible d req = (\<lambda>row. i_is_active row = Some True)"
    using assms(1)
    by (simp add: fun_eq_iff internships_select_visible_def
        anyone_authenticated_can_view_active_internships_def admins_can_manage_internships_def)
  then show ?thesis
    by (simp add: select_internships_def)
qed

theorem unassigned_principal_reads_active_postings_witness:
  "auth_role unassigned_session = ''authenticated''
   \<and> \<not> list_ex (\<lambda>row. Some (ur_user_id row) = auth_uid unassigned_session) (user_roles sample_db)
   \<and> select_internships sample_db unassigned_session = [active_posting]"
proof -
  have a: "auth_role unassigned_session = ''authenticated''"
    by (simp add: unassigned_session_def)
  have b: "\<not> list_ex (\<lambda>row. Some (ur_user_id row) = auth_uid unassigned_session)
                (user_roles sample_db)"
    by (simp add: unassigned_session_def sample_db_def)
  show ?thesis
    using unassigned_principal_reads_active_postings [OF a b] a b
    by (simp add: sample_db_def active_posting_def inactive_posting_def)
qed

section \<open>Updating an application\<close>

lemma update_application_non_admin:
  "\<not> has_role d (auth_uid req) Admin \<Longrightarrow> update_application d req now target st fb = Inr d"
  by (simp add: update_application_def admins_can_update_applications_def list_ex_iff)

lemma update_application_admin:
  "has_role d (auth_uid req) Admin \<Longrightarrow> status_check st \<Longrightarrow>
   update_application d req now target st fb =
     Inr (d\<lparr>applications :=
              map (\<lambda>row. if a_id row = target
                          then row\<lparr>a_status := st, a_feedback := fb, a_updated_at := now\<rparr>
                          else row) (applications d)\<rparr>)"
  by (simp add: update_application_def admins_can_update_applications_def
      applications_select_visible_def admins_can_view_all_applications_def
      update_application_timestamp_def list_ex_iff)

text \<open>
  Claim C1, as stated: once an application is accepted or rejected, the policy layer
  rejects every update that changes its status, also one back to \<open>pending\<close>. On the
  small database the admin's update of the accepted application to \<open>pending\<close>
  succeeds and the row is pending afterwards: the update policy tests the requester's
  role and nothing of the row.
\<close>

theorem terminal_status_not_enforced_counterexample:
  "a_status accepted_application = Some ''accepted''
   \<and> applications sample_db = [accepted_application]
   \<and> update_application sample_db admin_session 9 ''a1'' (Some ''pending'') None
       = Inr (sample_db\<lparr>applications :=
                [accepted_application\<lparr>a_status := Some ''pending'', a_feedback := None,
                                      a_updated_at := 9\<rparr>]\<rparr>)"
  by (simp add: update_application_def admins_can_update_applications_def
      applications_select_visible_def admins_can_view_all_applications_def
      update_application_timestamp_def has_role_def status_check_def
      sample_db_def admin_session_def accepted_application_def)

text \<open>
  Claim C1, amended. An update by a requester who does not hold the admin role changes
  no row, whatever the status of the application: the statement ends without an error
  and the database is as before. An update by an admin is admitted by the policy
  whatever the current status of the row, also from \<open>accepted\<close> or \<open>rejected\<close>
  and also to \<open>pending\<close>: the row takes the new status and feedback and the
  refreshed timestamp. The restriction to pending applications is the dashboard's alone,
  which offers the status actions only for them.
\<close>

theorem status_update_policy:
  "(\<not> has_role d (auth_uid req) Admin
      \<longrightarrow> update_application d req now target st fb = Inr d)
   \<and> (has_role d (auth_uid req) Admin \<and> status_check st
      \<longrightarrow> update_application d req now target st fb =
            Inr (d\<lparr>applications :=
                     map (\<lambda>row. if a_id row = target
                                 then row\<lparr>a_status := st, a_feedback := fb, a_updated_at := now\<rparr>
                                 else row) (applications d)\<rparr>))
   \<and> (status_actions_offered row \<longleftrightarrow> a_status row = Some ''pending'')"
  by (simp add: update_application_non_admin update_application_admin status_actions_offered_def)

theorem status_update_policy_witness:
  "\<not> has_role sample_db (auth_uid student_session) Admin
   \<and> update_application sample_db student_session 9 ''a1'' (Some ''rejected'') None = Inr sample_db
   \<and> has_role sample_db (auth_uid admin_session) Admin
   \<and> status_check (Some ''rejected'')
   \<and> update_application sample_db admin_session 9 ''a1'' (Some ''rejected'') None
       = Inr (sample_db\<lparr>applications :=
                [accepted_application\<lparr>a_status := Some ''rejected'', a_feedback := None,
                                      a_updated_at := 9\<rparr>]\<rparr>)
   \<and> \<not> status_actions_offered accepted_application"
proof -
  have a: "\<not> has_role sample_db (auth_uid student_session) Admin"
    and b: "has_role sample_db (auth_uid admin_session) Admin"
    and c: "status_check (Some ''rejected'')"
    by (simp_all add: has_role_def sample_db_def student_session_def admin_session_def
        status_check_def)
  have e: "applications sample_db = [accepted_application]" "a_id accepted_application = ''a1''"
    "a_status accepted_application = Some ''accepted''"
    by (simp_all add: sample_db_def accepted_application_def)
  show ?thesis
    using status_update_policy [of sample_db student_session 9 "''a1''" "Some ''rejected''" None
        accepted_application]
      status_update_policy [of sample_db admin_session 9 "''a1''" "Some ''rejected''" None
        accepted_application] a b c e
    by simp
qed

section \<open>Creating a user\<close>

lemma handle_new_user_Inr:
  assumes "handle_new_user d now rid new = Inr d'"
  shows "\<exists>email. u_email new = Some email
     \<and> \<not> list_ex (\<lambda>p. p_id p = u_id new) (profiles d)
     \<and> d' = d\<lparr>profiles := profiles d @
                 [\<lparr>p_id = u_id new,
                   p_full_name = (case meta_get new ''full_name'' of None \<Rightarrow> [] | Some n \<Rightarrow> n),
                   p_email = email,
                   p_student_id = meta_get new ''student_id'',
                   p_department = meta_get new ''department'',
                   p_created_at = now\<rparr>],
               user_roles := user_roles d @
                 [\<lparr>ur_id = rid, ur_user_id = u_id new,
                   ur_role = (if meta_get new ''role'' = Some ''admin'' then Admin else Student)\<rparr>]\<rparr>"
  using assms
  by (auto simp: handle_new_user_def Let_def split: option.splits if_splits)

text \<open>
  Claim C4. The creation of a user is one statement. When it fails, the database is as
  before: no user, no profile, no role row. When it succeeds, the new database has the
  user, exactly one new profile row and exactly one new role row, both for the new
  user, and the role is \<open>admin\<close> exactly when the metadata's \<open>role\<close> is
  \<open>admin\<close>, \<open>student\<close> otherwise. The new user then has one profile and, where
  the foreign keys held before, one role row.
\<close>

theorem new_user_profile_and_role:
  "(case on_auth_user_created d now rid new of
      Inl e \<Rightarrow> step d (CreateUser now rid new) = d
    | Inr d' \<Rightarrow>
        step d (CreateUser now rid new) = d'
        \<and> auth_users d' = auth_users d @ [new]
        \<and> (\<exists>p. profiles d' = profiles d @ [p] \<and> p_id p = u_id new)
        \<and> (\<exists>r. user_roles d' = user_roles d @ [r] \<and> ur_user_id r = u_id new
                \<and> (ur_role r = Admin \<longleftrightarrow> meta_get new ''role'' = Some ''admin'')
                \<and> (ur_role r = Student \<longleftrightarrow> meta_get new ''role'' \<noteq> Some ''admin''))
        \<and> internships d' = internships d
        \<and> applications d' = applications d
        \<and> length (filter (\<lambda>p. p_id p = u_id new) (profiles d')) = 1
        \<and> (references_hold d
             \<longrightarrow> length (filter (\<lambda>r. ur_user_id r = u_id new) (user_roles d')) = 1))"
proof (cases "on_auth_user_created d now rid new")
  case (Inl e)
  then show ?thesis by (simp add: commit_def)
next
  case (Inr d')
  then have fresh: "\<not> list_ex (\<lambda>u. u_id u = u_id new) (auth_users d)"
    and h: "handle_new_user (d\<lparr>auth_users := auth_users d @ [new]\<rparr>) now rid new = Inr d'"
    by (auto simp: on_auth_user_created_def split: if_splits)
  from handle_new_user_Inr [OF h] obtain email where
    nop: "\<not> list_ex (\<lambda>p. p_id p = u_id new) (profiles d)"
    and d': "d' = d\<lparr>auth_users := auth_users d @ [new],
               profiles := profiles d @
                 [\<lparr>p_id = u_id new,
                   p_full_name = (case meta_get new ''full_name'' of None \<Rightarrow> [] | Some n \<Rightarrow> n),
                   p_email = email,
                   p_student_id = meta_get new ''student_id'',
                   p_department = meta_get new ''department'',
                   p_created_at = now\<rparr>],
               user_roles := user_roles d @
                 [\<lparr>ur_id = rid, ur_user_id = u_id new,
                   ur_role = (if meta_get new ''role'' = Some ''admin'' then Admin else Student)\<rparr>]\<rparr>"
    by auto
  have p0: "filter (\<lambda>p. p_id p = u_id new) (profiles d) = []"
    using nop by (simp add: list_ex_iff filter_empty_conv)
  have r0: "filter (\<lambda>r. ur_user_id r = u_id new) (user_roles d) = []" if "references_hold d"
  proof -
    have "ur_user_id r \<noteq> u_id new" if "r \<in> set (user_roles d)" for r
    proof -
      from \<open>references_hold d\<close> that have "\<exists>p \<in> set (profiles d). p_id p = ur_user_id r"
        by (auto simp: references_hold_def list_all_iff list_ex_iff)
      with nop show ?thesis by (auto simp: list_ex_iff)
    qed
    then show ?thesis by (simp add: filter_empty_conv)
  qed
  show ?thesis
    using Inr p0 r0 by (simp add: commit_def d')
qed

theorem new_user_profile_and_role_witness:
  "on_auth_user_created fresh_db 5 ''r3'' new_admin =
     Inr (fresh_db\<lparr>auth_users := auth_users fresh_db @ [new_admin],
            profiles := profiles fresh_db @
              [\<lparr>p_id = ''dave'', p_full_name = ''Dave'', p_email = ''dave@klu.edu'',
                p_student_id = None, p_department = None, p_created_at = 5\<rparr>],
            user_roles := user_roles fresh_db @
              [\<lparr>ur_id = ''r3'', ur_user_id = ''dave'', ur_role = Admin\<rparr>]\<rparr>)
   \<and> references_hold fresh_db
   \<and> length (filter (\<lambda>r. ur_user_id r = ''dave'')
        (user_roles (step fresh_db (CreateUser 5 ''r3'' new_admin)))) = 1
   \<and> on_auth_user_created sample_db 5 ''r3'' (new_admin\<lparr>u_id := ''bob''\<rparr>)
       = Inl (UniqueViolation users_pkey)
   \<and> step sample_db (CreateUser 5 ''r3'' (new_admin\<lparr>u_id := ''bob''\<rparr>)) = sample_db"
proof -
  have ok: "on_auth_user_created fresh_db 5 ''r3'' new_admin =
     Inr (fresh_db\<lparr>auth_users := auth_users fresh_db @ [new_admin],
            profiles := profiles fresh_db @
              [\<lparr>p_id = ''dave'', p_full_name = ''Dave'', p_email = ''dave@klu.edu'',
                p_student_id = None, p_department = None, p_created_at = 5\<rparr>],
            user_roles := user_roles fresh_db @
              [\<lparr>ur_id = ''r3'', ur_user_id = ''dave'', ur_role = Admin\<rparr>]\<rparr>)"
    by (simp add: on_auth_user_created_def handle_new_user_def meta_get_def Let_def
        fresh_db_def sample_db_def new_admin_def)
  have bad: "on_auth_user_created sample_db 5 ''r3'' (new_admin\<lparr>u_id := ''bob''\<rparr>)
       = Inl (UniqueViolation users_pkey)"
    by (simp add: on_auth_user_created_def sample_db_def new_admin_def)
  have refs: "references_hold fresh_db"
    by (simp add: references_hold_def fresh_db_def sample_db_def)
  have uid: "u_id new_admin = ''dave''"
    by (simp add: new_admin_def)
  show ?thesis
    using new_user_profile_and_role [of fresh_db 5 "''r3''" new_admin]
      new_user_profile_and_role [of sample_db 5 "''r3''" "new_admin\<lparr>u_id := ''bob''\<rparr>"]
      ok bad refs uid
    by simp
qed

section \<open>One application for a posting and a student\<close>

lemma handle_new_user_applications:
  "handle_new_user d now rid new = Inr d' \<Longrightarrow> applications d' = applications d"
  by (auto simp: handle_new_user_def Let_def split: option.splits if_splits)

lemma on_auth_user_created_applications:
  "on_auth_user_created d now rid new = Inr d' \<Longrightarrow> applications d' = applications d"
  by (auto simp: on_auth_user_created_def split: if_splits dest: handle_new_user_applications)

lemma insert_application_Inr:
  assumes "insert_application d req row = Inr d'"
  shows "d' = d\<lparr>applications := applications d @ [row]\<rparr>
         \<and> application_key row \<notin> application_key ` set (applications d)"
  using assms
  by (auto simp: insert_application_def application_key_def list_ex_iff split: if_splits)

lemma update_application_keys:
  assumes "update_application d req now target st fb = Inr d'"
  shows "map application_key (applications d') = map application_key (applications d)"
proof -
  define hit where "hit = (\<lambda>row. a_id row = target \<and> applications_select_visible d req row
                                \<and> admins_can_update_applications d req row)"
  from assms have "applications d' =
      map (\<lambda>row. if hit row then update_application_timestamp now
                       (row\<lparr>a_status := st, a_feedback := fb\<rparr>) else row) (applications d)"
    by (auto simp: update_application_def Let_def hit_def split: if_splits)
  then show ?thesis
    by (simp add: application_key_def update_application_timestamp_def)
qed

lemma step_one_application_per_pair:
  assumes "one_application_per_pair d"
  shows "one_application_per_pair (step d a)"
proof (cases a)
  case (CreateUser now rid new)
  then show ?thesis
    using assms
    by (cases "on_auth_user_created d now rid new")
      (auto simp: commit_def one_application_per_pair_def dest: on_auth_user_created_applications)
next
  case (InsertApplication req row)
  then show ?thesis
    using assms
    by (cases "insert_application d req row")
      (auto simp: commit_def one_application_per_pair_def dest!: insert_application_Inr)
next
  case (UpdateApplication req now target st fb)
  then show ?thesis
    using assms
    by (cases "update_application d req now target st fb")
      (auto simp: commit_def one_application_per_pair_def dest: update_application_keys)
next
  case (DeleteInternship req target)
  then show ?thesis
    using assms
    by (simp add: commit_def delete_internship_def one_application_per_pair_def
        distinct_map_filter)
next
  case (DeleteUser uid)
  then show ?thesis
    using assms
    by (simp add: delete_user_def one_application_per_pair_def distinct_map_filter)
qed

lemma run_one_application_per_pair:
  "one_application_per_pair d \<Longrightarrow> one_application_per_pair (run d acts)"
  unfolding run_def
  by (induction acts arbitrary: d) (simp_all add: step_one_application_per_pair)

lemma one_application_per_pair_length:
  assumes "one_application_per_pair d"
  shows "length (applications_of d i s) \<le> 1"
proof -
  have "distinct (map f xs) \<Longrightarrow> length (filter (\<lambda>x. f x = k) xs) \<le> 1" for f :: "application \<Rightarrow> uuid \<times> uuid" and xs k
  proof (induction xs)
    case Nil
    then show ?case by simp
  next
    case (Cons x xs)
    show ?case
    proof (cases "f x = k")
      case True
      from Cons.prems have "f x \<notin> f ` set xs"
        by simp
      with True have "\<forall>y \<in> set xs. f y \<noteq> k"
        by blast
      then have "filter (\<lambda>y. f y = k) xs = []"
        by (simp add: filter_empty_conv)
      with True show ?thesis by simp
    next
      case False
      with Cons show ?thesis by simp
    qed
  qed
  from this [of application_key "applications d" "(i, s)"] assms
  show ?thesis
    by (simp add: one_application_per_pair_def applications_of_def application_key_def)
qed

lemma insert_application_duplicate:
  assumes "applications_of d (a_internship_id row) (a_student_id row) \<noteq> []"
  shows "insert_application d req row =
           Inl (if \<not> students_can_create_their_own_applications req row then RlsViolation
                else if \<not> status_check (a_status row) then CheckViolation
                else if list_ex (\<lambda>r. a_id r = a_id row) (applications d)
                  then UniqueViolation applications_pkey
                else UniqueViolation applications_internship_id_student_id_key)"
proof -
  from assms have "list_ex (\<lambda>r. a_internship_id r = a_internship_id row
                             \<and> a_student_id r = a_student_id row) (applications d)"
    by (auto simp: applications_of_def list_ex_iff filter_empty_conv)
  then show ?thesis
    by (simp add: insert_application_def)
qed

text \<open>
  Claim C3. Starting from a database without applications, after any run of statements
  there is at most one application row for a posting and a student. When there is one,
  a further \<open>handleApply\<close> of that student for that posting fails with a unique
  violation, the conflict error of the datastore (of \<open>UNIQUE (internship_id,
  student_id)\<close>, or of the primary key should the fresh id collide): the database is
  left as it was, and the handler shows an error toast with that error's message, not
  the toast of success. No insert for the pair by any requester and with any row
  succeeds or changes the database.
\<close>

theorem one_application_per_posting_and_student:
  assumes "applications d0 = []"
  shows "length (applications_of (run d0 acts) internshipId uid) \<le> 1
     \<and> (applications_of (run d0 acts) internshipId uid \<noteq> [] \<longrightarrow>
          (let conflict = UniqueViolation
                 (if list_ex (\<lambda>r. a_id r = fresh_id) (applications (run d0 acts))
                  then applications_pkey
                  else applications_internship_id_student_id_key)
           in insert_application (run d0 acts)
                  \<lparr>auth_uid = Some uid, auth_role = ''authenticated''\<rparr>
                  \<lparr>a_id = fresh_id, a_internship_id = internshipId, a_student_id = uid,
                   a_status = Some ''pending'', a_feedback = None,
                   a_applied_at = now, a_updated_at = now\<rparr> = Inl conflict
              \<and> handleApply message (run d0 acts) now fresh_id (Some uid) internshipId
                  = \<lparr>ao_db = run d0 acts,
                     ao_toast = Some (ToastError (or_else (Some (message conflict))
                                                    ''Error submitting application''))\<rparr>)
          \<and> (\<forall>req row. a_internship_id row = internshipId \<and> a_student_id row = uid
                \<longrightarrow> (\<exists>e. insert_application (run d0 acts) req row = Inl e)
                    \<and> step (run d0 acts) (InsertApplication req row) = run d0 acts))"
proof -
  let ?d = "run d0 acts"
  let ?conflict = "UniqueViolation
                 (if list_ex (\<lambda>r. a_id r = fresh_id) (applications ?d)
                  then applications_pkey
                  else applications_internship_id_student_id_key)"
  have inv: "one_application_per_pair ?d"
    using assms by (intro run_one_application_per_pair) (simp add: one_application_per_pair_def)
  have dup: "insert_application ?d
                  \<lparr>auth_uid = Some uid, auth_role = ''authenticated''\<rparr>
                  \<lparr>a_id = fresh_id, a_internship_id = internshipId, a_student_id = uid,
                   a_status = Some ''pending'', a_feedback = None,
                   a_applied_at = now, a_updated_at = now\<rparr> = Inl ?conflict
             \<and> handleApply message ?d now fresh_id (Some uid) internshipId
                 = \<lparr>ao_db = ?d,
                    ao_toast = Some (ToastError (or_else (Some (message ?conflict))
                                                   ''Error submitting application''))\<rparr>"
    if ne: "applications_of ?d internshipId uid \<noteq> []"
  proof -
    let ?row = "\<lparr>a_id = fresh_id, a_internship_id = internshipId, a_student_id = uid,
                   a_status = Some ''pending'', a_feedback = None,
                   a_applied_at = now, a_updated_at = now\<rparr>"
    let ?req = "\<lparr>auth_uid = Some uid, auth_role = ''authenticated''\<rparr>"
    from ne have ne': "applications_of ?d (a_internship_id ?row) (a_student_id ?row) \<noteq> []"
      by simp
    have ins: "insert_application ?d ?req ?row = Inl ?conflict"
      unfolding insert_application_duplicate [OF ne']
      by (simp add: students_can_create_their_own_applications_def status_check_def)
    then have "handleApply message ?d now fresh_id (Some uid) internshipId
                 = \<lparr>ao_db = ?d,
                    ao_toast = Some (ToastError (or_else (Some (message ?conflict))
                                                   ''Error submitting application''))\<rparr>"
      by (simp add: handleApply_def)
    with ins show ?thesis
      by simp
  qed
  have any: "(\<exists>e. insert_application ?d req row = Inl e)
              \<and> step ?d (InsertApplication req row) = ?d"
    if "applications_of ?d internshipId uid \<noteq> []"
      and "a_internship_id row = internshipId \<and> a_student_id row = uid" for req row
  proof -
    from that have "applications_of ?d (a_internship_id row) (a_student_id row) \<noteq> []"
      by simp
    from insert_application_duplicate [OF this, of req] show ?thesis
      by (simp add: commit_def)
  qed
  show ?thesis
    unfolding Let_def
    using one_application_per_pair_length [OF inv] dup any by blast
qed

theorem one_application_per_posting_and_student_witness:
  "applications fresh_db = []
   \<and> run fresh_db [InsertApplication student_session first_application]
       = fresh_db\<lparr>applications := [first_application]\<rparr>
   \<and> applications_of (run fresh_db [InsertApplication student_session first_application])
         ''i1'' ''alice'' = [first_application]
   \<and> handleApply pg_message (run fresh_db [InsertApplication student_session first_application])
         7 ''a2'' (Some ''alice'') ''i1''
       = \<lparr>ao_db = run fresh_db [InsertApplication student_session first_application],
          ao_toast = Some (ToastError ''duplicate key value violates unique constraint'')\<rparr>
   \<and> insert_application (run fresh_db [InsertApplication student_session first_application])
         student_session (first_application\<lparr>a_id := ''a2''\<rparr>)
       = Inl (UniqueViolation applications_internship_id_student_id_key)"
proof -
  have e: "applications fresh_db = []"
    by (simp add: fresh_db_def)
  have r: "run fresh_db [InsertApplication student_session first_application]
             = fresh_db\<lparr>applications := [first_application]\<rparr>"
    by (simp add: run_def commit_def insert_application_def
        students_can_create_their_own_applications_def status_check_def
        fresh_db_def sample_db_def student_session_def first_application_def
        active_posting_def inactive_posting_def)
  have a: "applications_of (fresh_db\<lparr>applications := [first_application]\<rparr>) ''i1'' ''alice''
             = [first_application]"
    by (simp add: applications_of_def first_application_def)
  have i: "insert_application (fresh_db\<lparr>applications := [first_application]\<rparr>)
             student_session (first_application\<lparr>a_id := ''a2''\<rparr>)
           = Inl (UniqueViolation applications_internship_id_student_id_key)"
    by (simp add: insert_application_def students_can_create_their_own_applications_def
        status_check_def student_session_def first_application_def)
  have h: "handleApply pg_message (fresh_db\<lparr>applications := [first_application]\<rparr>)
             7 ''a2'' (Some ''alice'') ''i1''
           = \<lparr>ao_db = fresh_db\<lparr>applications := [first_application]\<rparr>,
              ao_toast = Some (ToastError ''duplicate key value violates unique constraint'')\<rparr>"
    by (simp add: handleApply_def insert_application_def or_else_def
        students_can_create_their_own_applications_def status_check_def first_application_def)
  show ?thesis
    using one_application_per_posting_and_student [OF e,
        of "[InsertApplication student_session first_application]" "''i1''" "''alice''"
          "''a2''" 7 pg_message]
      e r a i h
    by simp
qed

section \<open>The status update and its notification\<close>

lemma status_check_status_text: "status_check (Some (status_text s))"
  by (cases s) (simp_all add: status_check_def)

text \<open>
  Claim C6. After an admin's call of \<open>handleStatusUpdate\<close> the database holds the
  new status, the feedback and the refreshed timestamp on the application, whatever the
  email function answers: a failed notification rolls nothing back. The email function
  is invoked exactly once, also when it fails. Its failure is shown by a toast of its
  own, \<open>Status updated but email notification failed\<close>, where its success shows the
  success toast.
\<close>

theorem notification_failure_keeps_status:
  assumes "has_role d (auth_uid req) Admin"
  shows "(let out = handleStatusUpdate message invoke d req now feedback applicationId newStatus
                      studentEmail;
              body = \<lparr>er_to = studentEmail, er_status = JString (status_text newStatus),
                      er_feedback = or_else (feedback applicationId) []\<rparr>
          in so_db out =
               d\<lparr>applications :=
                   map (\<lambda>row. if a_id row = applicationId
                               then row\<lparr>a_status := Some (status_text newStatus),
                                        a_feedback := or_null (feedback applicationId),
                                        a_updated_at := now\<rparr>
                               else row) (applications d)\<rparr>
             \<and> so_invocations out = [body]
             \<and> (invoke body \<noteq> None \<longrightarrow>
                  so_toast out = ToastError ''Status updated but email notification failed'')
             \<and> (invoke body = None \<longrightarrow>
                  so_toast out = ToastSuccess (''Application '' @ status_text newStatus
                                               @ '' and email sent!'')))"
  using update_application_admin [OF assms status_check_status_text,
      of now applicationId newStatus "or_null (feedback applicationId)"]
  by (auto simp: handleStatusUpdate_def Let_def)

theorem notification_failure_keeps_status_witness:
  "has_role pending_db (auth_uid admin_session) Admin
   \<and> so_db (handleStatusUpdate pg_message failing_invoke pending_db admin_session 9
        (Map.empty(''a1'' \<mapsto> ''Great fit'')) ''a1'' Accepted ''alice@klu.edu'')
       = pending_db\<lparr>applications :=
           [first_application\<lparr>a_status := Some ''accepted'', a_feedback := Some ''Great fit'',
                               a_updated_at := 9\<rparr>]\<rparr>
   \<and> so_invocations (handleStatusUpdate pg_message failing_invoke pending_db admin_session 9
        (Map.empty(''a1'' \<mapsto> ''Great fit'')) ''a1'' Accepted ''alice@klu.edu'')
       = [\<lparr>er_to = ''alice@klu.edu'', er_status = JString ''accepted'',
           er_feedback = ''Great fit''\<rparr>]
   \<and> so_toast (handleStatusUpdate pg_message failing_invoke pending_db admin_session 9
        (Map.empty(''a1'' \<mapsto> ''Great fit'')) ''a1'' Accepted ''alice@klu.edu'')
       = ToastError ''Status updated but email notification failed''"
proof -
  have adm: "has_role pending_db (auth_uid admin_session) Admin"
    by (simp add: has_role_def pending_db_def fresh_db_def sample_db_def admin_session_def)
  have apps: "applications pending_db = [first_application]" "a_id first_application = ''a1''"
    by (simp_all add: pending_db_def first_application_def)
  show ?thesis
    using notification_failure_keeps_status [OF adm, of pg_message failing_invoke 9
        "Map.empty(''a1'' \<mapsto> ''Great fit'')" "''a1''" Accepted "''alice@klu.edu''"] adm apps
    by (simp add: Let_def or_else_def or_null_def failing_invoke_def)
qed

text \<open>
  Claim C10. An admin's status update writes the feedback column of the application
  whatever it held: afterwards the stored feedback is the text typed for the
  application when that text is not empty, and \<open>NULL\<close> when it is empty or nothing
  was typed. The email function receives the typed text, the empty string when nothing
  was typed.
\<close>

theorem status_update_overwrites_feedback:
  assumes "has_role d (auth_uid req) Admin"
    and "row \<in> set (applications d)"
    and "a_id row = applicationId"
  shows "(let out = handleStatusUpdate message invoke d req now feedback applicationId newStatus
                      studentEmail;
              stored = (case feedback applicationId of
                          None \<Rightarrow> None
                        | Some entered \<Rightarrow> if entered = [] then None else Some entered)
          in row\<lparr>a_status := Some (status_text newStatus), a_feedback := stored,
                 a_updated_at := now\<rparr> \<in> set (applications (so_db out))
             \<and> (\<forall>row' \<in> set (applications (so_db out)).
                   a_id row' = applicationId \<longrightarrow> a_feedback row' = stored)
             \<and> map er_feedback (so_invocations out)
                 = [case feedback applicationId of None \<Rightarrow> [] | Some entered \<Rightarrow> entered])"
proof -
  have upd: "update_application d req now applicationId (Some (status_text newStatus))
               (or_null (feedback applicationId)) =
     Inr (d\<lparr>applications :=
              map (\<lambda>row. if a_id row = applicationId
                          then row\<lparr>a_status := Some (status_text newStatus),
                                   a_feedback := or_null (feedback applicationId),
                                   a_updated_at := now\<rparr>
                          else row) (applications d)\<rparr>)"
    by (rule update_application_admin [OF assms(1) status_check_status_text])
  have mail: "or_else (feedback applicationId) [] =
               (case feedback applicationId of None \<Rightarrow> [] | Some entered \<Rightarrow> entered)"
    by (simp add: or_else_def split: option.splits)
  let ?stored = "or_null (feedback applicationId)"
  let ?f = "\<lambda>row. if a_id row = applicationId
                    then row\<lparr>a_status := Some (status_text newStatus),
                             a_feedback := ?stored, a_updated_at := now\<rparr>
                    else row"
  let ?out = "handleStatusUpdate message invoke d req now feedback applicationId newStatus
                studentEmail"
  have db: "applications (so_db ?out) = map ?f (applications d)"
    and inv: "map er_feedback (so_invocations ?out) = [or_else (feedback applicationId) []]"
    by (simp_all add: handleStatusUpdate_def upd Let_def)
  have "?f row \<in> set (applications (so_db ?out))"
    unfolding db using assms(2) by simp
  then have one: "row\<lparr>a_status := Some (status_text newStatus), a_feedback := ?stored,
                       a_updated_at := now\<rparr> \<in> set (applications (so_db ?out))"
    using assms(3) by simp
  have all: "a_feedback row' = ?stored"
    if "row' \<in> set (applications (so_db ?out))" "a_id row' = applicationId" for row'
  proof -
    from that(1) have "row' \<in> ?f ` set (applications d)"
      unfolding db by (simp only: set_map)
    then obtain x where x: "row' = ?f x"
      by (rule imageE)
    show ?thesis
    proof (cases "a_id x = applicationId")
      case True
      with x show ?thesis by simp
    next
      case False
      with x that(2) show ?thesis by simp
    qed
  qed
  have stored: "?stored = (case feedback applicationId of
                            None \<Rightarrow> None
                          | Some entered \<Rightarrow> if entered = [] then None else Some entered)"
    by (simp add: or_null_def)
  show ?thesis
    unfolding Let_def stored [symmetric] mail [symmetric]
    using one all inv by blast
qed

theorem status_update_overwrites_feedback_witness:
  "has_role sample_db (auth_uid admin_session) Admin
   \<and> accepted_application \<in> set (applications sample_db)
   \<and> a_id accepted_application = ''a1''
   \<and> a_feedback accepted_application = Some ''Great fit''
   \<and> applications (so_db (handleStatusUpdate pg_message failing_invoke sample_db admin_session 9
        Map.empty ''a1'' Rejected ''alice@klu.edu''))
       = [accepted_application\<lparr>a_status := Some ''rejected'', a_feedback := None,
                               a_updated_at := 9\<rparr>]
   \<and> map er_feedback (so_invocations (handleStatusUpdate pg_message failing_invoke sample_db
        admin_session 9 Map.empty ''a1'' Rejected ''alice@klu.edu'')) = [[]]"
proof -
  have adm: "has_role sample_db (auth_uid admin_session) Admin"
    by (simp add: has_role_def sample_db_def admin_session_def)
  have mem: "accepted_application \<in> set (applications sample_db)"
    by (simp add: sample_db_def)
  have aid: "a_id accepted_application = ''a1''"
    and fb: "a_feedback accepted_application = Some ''Great fit''"
    by (simp_all add: accepted_application_def)
  have apps: "applications sample_db = [accepted_application]"
    by (simp add: sample_db_def)
  have out: "so_db (handleStatusUpdate pg_message failing_invoke sample_db admin_session 9
        Map.empty ''a1'' Rejected ''alice@klu.edu'')
      = sample_db\<lparr>applications :=
          [accepted_application\<lparr>a_status := Some ''rejected'', a_feedback := None,
                                a_updated_at := 9\<rparr>]\<rparr>"
    by (simp add: handleStatusUpdate_def or_null_def Let_def update_application_def
        admins_can_update_applications_def applications_select_visible_def
        admins_can_view_all_applications_def update_application_timestamp_def has_role_def
        status_check_def sample_db_def admin_session_def accepted_application_def)
  show ?thesis
    using status_update_overwrites_feedback [OF adm mem aid, of pg_message failing_invoke 9
        Map.empty Rejected "''alice@klu.edu''"] adm mem aid fb out
    by (simp add: Let_def)
qed

section \<open>Validation on the sign-in page\<close>

lemma signupSchema_first:
  assumes "\<not> is_email (trim (sd_email data)) \<or> length (sd_password data) < 6
           \<or> trim (sd_fullName data) = []"
  shows "\<exists>rest. signupSchema is_email data =
           (if \<not> is_email (trim (sd_email data)) then ''Invalid email address''
            else if length (sd_password data) < 6 then ''Password must be at least 6 characters''
            else ''Full name is required'') # rest"
  using assms by (auto simp: signupSchema_def)

lemma signinSchema_first:
  assumes "\<not> is_email (trim (si_email data)) \<or> si_password data = []"
  shows "\<exists>rest. signinSchema is_email data =
           (if \<not> is_email (trim (si_email data)) then ''Invalid email address''
            else ''Password is required'') # rest"
  using assms by (auto simp: signinSchema_def)

text \<open>
  Claim C8, as stated: a sign-up or sign-in whose email is not a valid address is
  rejected before any call to the network. The schemas trim the email before they test
  it, \<open>parse\<close>'s result is dropped, and the handlers go on with the text as typed. So
  an address with a space at either end, which the email test refuses, passes the
  schema, and the identity provider is called with it: \<open>handleSignUp\<close> makes its
  \<open>signUp\<close> call and \<open>handleSignIn\<close> its three calls.
\<close>

theorem padded_address_reaches_network_counterexample:
  "\<not> plain_address '' dave@klu.edu ''
   \<and> au_calls (handleSignUp plain_address accepting_signUp ''https://portal'' UserAdmin
        \<lparr>sf_email = '' dave@klu.edu '', sf_password = ''secret1'', sf_fullName = ''Dave'',
         sf_studentId = [], sf_department = []\<rparr>)
       = [SignUpCall \<lparr>su_email = '' dave@klu.edu '', su_password = ''secret1'',
                      su_emailRedirectTo = ''https://portal/'',
                      su_data = [(''full_name'', ''Dave''), (''role'', ''admin'')]\<rparr>]
   \<and> \<not> plain_address '' bob@klu.edu ''
   \<and> au_calls (handleSignIn plain_address accepting_signIn (Some ''bob'') sample_db
        \<lparr>si_email = '' bob@klu.edu '', si_password = ''secret1''\<rparr>)
       = [SignInWithPasswordCall '' bob@klu.edu '' ''secret1'', GetUserCall,
          SelectRoleCall ''bob'']"
  by (simp add: handleSignUp_def handleSignIn_def signupSchema_def signinSchema_def
      trim_def is_space_def plain_address_def accepting_signUp_def accepting_signIn_def
      Let_def)

text \<open>
  Claim C8, amended. A sign-up whose email, with the white space at its two ends
  removed, is not a valid address, or whose password has fewer than 6 characters, or
  whose display name is empty or white space alone, is rejected without any call to the
  network, and the one toast shown carries the first violation in the order email,
  password, name. A sign-in whose email, trimmed in the same way, is not a valid address
  or whose password is empty is rejected the same way.
\<close>

theorem validation_rejects_before_network:
  "(\<not> is_email (trim (sf_email form)) \<or> length (sf_password form) < 6
      \<or> trim (sf_fullName form) = []
    \<longrightarrow> handleSignUp is_email signUp origin user_type form =
          \<lparr>au_calls = [],
           au_toast = Some (ToastError
             (if \<not> is_email (trim (sf_email form)) then ''Invalid email address''
              else if length (sf_password form) < 6
                then ''Password must be at least 6 characters''
              else ''Full name is required'')),
           au_navigate = None\<rparr>)
   \<and> (\<not> is_email (trim (si_email data)) \<or> si_password data = []
    \<longrightarrow> handleSignIn is_email signInWithPassword getUser d data =
          \<lparr>au_calls = [],
           au_toast = Some (ToastError
             (if \<not> is_email (trim (si_email data)) then ''Invalid email address''
              else ''Password is required'')),
           au_navigate = None\<rparr>)"
proof (intro conjI impI)
  let ?data = "\<lparr>sd_email = sf_email form, sd_password = sf_password form,
                 sd_fullName = sf_fullName form,
                 sd_studentId = (if user_type = UserStudent then Some (sf_studentId form)
                                 else None),
                 sd_department = (if user_type = UserStudent then Some (sf_department form)
                                  else None)\<rparr>"
  assume "\<not> is_email (trim (sf_email form)) \<or> length (sf_password form) < 6
      \<or> trim (sf_fullName form) = []"
  then have "\<not> is_email (trim (sd_email ?data)) \<or> length (sd_password ?data) < 6
      \<or> trim (sd_fullName ?data) = []"
    by simp
  then obtain rest where
    "signupSchema is_email ?data =
       (if \<not> is_email (trim (sf_email form)) then ''Invalid email address''
        else if length (sf_password form) < 6 then ''Password must be at least 6 characters''
        else ''Full name is required'') # rest"
    using signupSchema_first [of is_email ?data] by auto
  then show "handleSignUp is_email signUp origin user_type form =
          \<lparr>au_calls = [],
           au_toast = Some (ToastError
             (if \<not> is_email (trim (sf_email form)) then ''Invalid email address''
              else if length (sf_password form) < 6
                then ''Password must be at least 6 characters''
              else ''Full name is required'')),
           au_navigate = None\<rparr>"
    by (simp add: handleSignUp_def Let_def)
next
  assume "\<not> is_email (trim (si_email data)) \<or> si_password data = []"
  then obtain rest where
    "signinSchema is_email data =
       (if \<not> is_email (trim (si_email data)) then ''Invalid email address''
        else ''Password is required'') # rest"
    using signinSchema_first [of is_email data] by auto
  then show "handleSignIn is_email signInWithPassword getUser d data =
          \<lparr>au_calls = [],
           au_toast = Some (ToastError
             (if \<not> is_email (trim (si_email data)) then ''Invalid email address''
              else ''Password is required'')),
           au_navigate = None\<rparr>"
    by (simp add: handleSignIn_def)
qed

theorem validation_rejects_before_network_witness:
  "\<not> has_at_sign (trim ''  not-an-address '')
   \<and> handleSignUp has_at_sign accepting_signUp ''https://portal'' UserAdmin
        \<lparr>sf_email = ''  not-an-address '', sf_password = ''abc'', sf_fullName = [],
         sf_studentId = [], sf_department = []\<rparr>
       = \<lparr>au_calls = [], au_toast = Some (ToastError ''Invalid email address''),
          au_navigate = None\<rparr>
   \<and> has_at_sign (trim ''bob@klu.edu'')
   \<and> handleSignUp has_at_sign accepting_signUp ''https://portal'' UserAdmin
        \<lparr>sf_email = ''bob@klu.edu'', sf_password = ''abcde'', sf_fullName = [],
         sf_studentId = [], sf_department = []\<rparr>
       = \<lparr>au_calls = [], au_toast = Some (ToastError ''Password must be at least 6 characters''),
          au_navigate = None\<rparr>
   \<and> handleSignUp has_at_sign accepting_signUp ''https://portal'' UserAdmin
        \<lparr>sf_email = ''bob@klu.edu'', sf_password = ''abcdef'', sf_fullName = [],
         sf_studentId = [], sf_department = []\<rparr>
       = \<lparr>au_calls = [], au_toast = Some (ToastError ''Full name is required''),
          au_navigate = None\<rparr>
   \<and> handleSignIn has_at_sign accepting_signIn (Some ''bob'') sample_db
        \<lparr>si_email = ''bob@klu.edu'', si_password = []\<rparr>
       = \<lparr>au_calls = [], au_toast = Some (ToastError ''Password is required''),
          au_navigate = None\<rparr>
   \<and> handleSignIn has_at_sign accepting_signIn (Some ''bob'') sample_db
        \<lparr>si_email = ''  not-an-address '', si_password = []\<rparr>
       = \<lparr>au_calls = [], au_toast = Some (ToastError ''Invalid email address''),
          au_navigate = None\<rparr>"
proof -
  have t1: "trim ''  not-an-address '' = ''not-an-address''"
    and t2: "trim ''bob@klu.edu'' = ''bob@klu.edu''"
    and t3: "trim [] = []"
    by (simp_all add: trim_def is_space_def)
  have e1: "\<not> has_at_sign ''not-an-address''" and e2: "has_at_sign ''bob@klu.edu''"
    by (simp_all add: has_at_sign_def)
  show ?thesis
    using validation_rejects_before_network [of has_at_sign
        "\<lparr>sf_email = ''  not-an-address '', sf_password = ''abc'', sf_fullName = [],
          sf_studentId = [], sf_department = []\<rparr>"
        accepting_signUp "''https://portal''" UserAdmin
        "\<lparr>si_email = ''bob@klu.edu'', si_password = []\<rparr>" accepting_signIn "Some ''bob''"
        sample_db]
      validation_rejects_before_network [of has_at_sign
        "\<lparr>sf_email = ''bob@klu.edu'', sf_password = ''abcde'', sf_fullName = [],
          sf_studentId = [], sf_department = []\<rparr>"
        accepting_signUp "''https://portal''" UserAdmin
        "\<lparr>si_email = ''  not-an-address '', si_password = []\<rparr>" accepting_signIn "Some ''bob''"
        sample_db]
      validation_rejects_before_network [of has_at_sign
        "\<lparr>sf_email = ''bob@klu.edu'', sf_password = ''abcdef'', sf_fullName = [],
          sf_studentId = [], sf_department = []\<rparr>"
        accepting_signUp "''https://portal''" UserAdmin
        "\<lparr>si_email = ''bob@klu.edu'', si_password = []\<rparr>" accepting_signIn "Some ''bob''"
        sample_db]
    by (simp add: t1 t2 t3 e1 e2)
qed

section \<open>The template of the notification\<close>

lemma subjects_differ: "accepted_subject \<noteq> rejected_subject"
  by (simp add: accepted_subject_def rejected_subject_def)

text \<open>
  Claim C9. For every request to the email function that is not a preflight and whose
  body parses, one message is handed to the mail service. It has the acceptance subject
  and template exactly when the status is the string \<open>accepted\<close>; for every other
  status, \<open>rejected\<close> or any other value, it has the rejection subject and template.
  No status makes the function refuse the request: whenever the mail service accepts the
  message, the response is 200.
\<close>

theorem email_template_by_status:
  assumes "hr_method req \<noteq> ''OPTIONS''"
    and "hr_json req = Inr body"
  shows "\<exists>email. ho_sent (handler send req) = [email]
     \<and> (em_subject email = accepted_subject
          \<and> em_html email = accepted_message (er_feedback body)
        \<longleftrightarrow> er_status body = JString ''accepted'')
     \<and> (er_status body \<noteq> JString ''accepted''
        \<longrightarrow> em_subject email = rejected_subject
            \<and> em_html email = rejected_message (er_feedback body))
     \<and> (\<forall>emailResponse. send email = Inr emailResponse \<and> rr_ok emailResponse
        \<longrightarrow> ho_response (handler send req)
              = \<lparr>rs_status = 200, rs_body = JsonData (rr_data emailResponse)\<rparr>)"
proof -
  let ?email = "\<lparr>em_from = ''KLU Internship Portal <onboarding@resend.dev>'',
                  em_to = [er_to body],
                  em_subject = (if er_status body = JString ''accepted''
                                then accepted_subject else rejected_subject),
                  em_html = (if er_status body = JString ''accepted''
                             then accepted_message (er_feedback body)
                             else rejected_message (er_feedback body))\<rparr>"
  have sent: "ho_sent (handler send req) = [?email]"
    using assms by (simp add: handler_def Let_def split: sum.splits)
  have resp: "ho_response (handler send req)
                = \<lparr>rs_status = 200, rs_body = JsonData (rr_data emailResponse)\<rparr>"
    if "send ?email = Inr emailResponse" "rr_ok emailResponse" for emailResponse
    using assms that by (simp add: handler_def Let_def)
  show ?thesis
    using sent resp subjects_differ by (intro exI [of _ ?email]) auto
qed

theorem email_template_by_status_witness:
  "hr_method pending_request \<noteq> ''OPTIONS''
   \<and> map em_subject (ho_sent (handler accepting_send pending_request))
       = [''Update on Your Internship Application'']
   \<and> map em_html (ho_sent (handler accepting_send pending_request)) = [rejected_message []]
   \<and> ho_response (handler accepting_send pending_request)
       = \<lparr>rs_status = 200, rs_body = JsonData ''{}''\<rparr>
   \<and> map em_subject (ho_sent (handler accepting_send
        (pending_request\<lparr>hr_json := Inr \<lparr>er_to = ''alice@klu.edu'',
           er_status = JString ''accepted'', er_feedback = ''Great fit''\<rparr>\<rparr>)))
       = [accepted_subject]
   \<and> map em_html (ho_sent (handler accepting_send
        (pending_request\<lparr>hr_json := Inr \<lparr>er_to = ''alice@klu.edu'',
           er_status = JNull, er_feedback = ''Great fit''\<rparr>\<rparr>)))
       = [rejected_message ''Great fit'']"
proof -
  have m: "hr_method pending_request \<noteq> ''OPTIONS''"
    and j: "hr_json pending_request = Inr \<lparr>er_to = ''alice@klu.edu'',
              er_status = JString ''pending'', er_feedback = []\<rparr>"
    by (simp_all add: pending_request_def)
  have rest: "map em_subject (ho_sent (handler accepting_send
        (pending_request\<lparr>hr_json := Inr \<lparr>er_to = ''alice@klu.edu'',
           er_status = JString ''accepted'', er_feedback = ''Great fit''\<rparr>\<rparr>)))
       = [accepted_subject]"
    "map em_html (ho_sent (handler accepting_send
        (pending_request\<lparr>hr_json := Inr \<lparr>er_to = ''alice@klu.edu'',
           er_status = JNull, er_feedback = ''Great fit''\<rparr>\<rparr>)))
       = [rejected_message ''Great fit'']"
    by (simp_all add: handler_def pending_request_def accepting_send_def Let_def)
  show ?thesis
    using email_template_by_status [OF m j, of accepting_send] m rest
    by (auto simp: accepting_send_def rejected_subject_def)
qed

end
